theory Spec2Isabelle
  imports Main "HOL-Library.AList"
begin

section \<open>Event kinds (core/events.py)\<close>

text \<open>
  The two enumerations of the module.  \<open>BlenderEventsTypes\<close> are the raw signals of the
  host, \<open>SverchokEventsTypes\<close> the classified ones.  Both Python enums use the member names
  \<open>add_node\<close>, \<open>copy_node\<close>, \<open>free_node\<close>, \<open>node_property_update\<close>, \<open>undo\<close> and
  \<open>frame_change\<close>; the members of the second enum carry the prefix \<open>sv_\<close> here.
\<close>

datatype BlenderEventsTypes =
    tree_update
  | monad_tree_update
  | node_update
  | add_node
  | copy_node
  | free_node
  | add_link_to_node
  | node_property_update
  | undo
  | frame_change

datatype SverchokEventsTypes =
    sv_add_node
  | sv_copy_node
  | sv_free_node
  | sv_node_property_update
  | sv_node_link_update
  | sv_undo
  | sv_undefined
  | sv_frame_change

text \<open>The dictionary \<open>EVENT_CONVERSION\<close> has an entry for each of the ten raw kinds.\<close>

fun EVENT_CONVERSION :: "BlenderEventsTypes \<Rightarrow> SverchokEventsTypes" where
  "EVENT_CONVERSION tree_update = sv_undefined"
| "EVENT_CONVERSION monad_tree_update = sv_undefined"
| "EVENT_CONVERSION node_update = sv_undefined"
| "EVENT_CONVERSION add_node = sv_add_node"
| "EVENT_CONVERSION copy_node = sv_copy_node"
| "EVENT_CONVERSION free_node = sv_free_node"
| "EVENT_CONVERSION add_link_to_node = sv_node_link_update"
| "EVENT_CONVERSION node_property_update = sv_node_property_update"
| "EVENT_CONVERSION undo = sv_undo"
| "EVENT_CONVERSION frame_change = sv_frame_change"

text \<open>
  The dictionary \<open>IS_WAVE_END\<close> has five keys only; it is read with
  \<open>IS_WAVE_END.get(self.type, False)\<close>.
\<close>

fun IS_WAVE_END :: "BlenderEventsTypes \<Rightarrow> bool option" where
  "IS_WAVE_END tree_update = Some True"
| "IS_WAVE_END node_property_update = Some True"
| "IS_WAVE_END monad_tree_update = Some True"
| "IS_WAVE_END undo = Some True"
| "IS_WAVE_END frame_change = Some True"
| "IS_WAVE_END _ = None"

section \<open>Host objects\<close>

text \<open>
  What the module reads of the host's objects: of a node its \<open>node_id\<close> and \<open>name\<close>, of a
  link the \<open>socket_id\<close> of its two sockets and the \<open>node_id\<close> of its two nodes, of a node
  tree its \<open>bl_idname\<close>, its \<open>tree_id\<close>, its nodes and its links.
\<close>

record Node =
  node_id :: string
  node_name :: string

record NodeLink =
  from_socket_id :: string
  to_socket_id :: string
  from_node_id :: string
  to_node_id :: string

record NodeTree =
  bl_idname :: string
  tree_id :: string
  tree_nodes :: "Node list"
  tree_links :: "NodeLink list"

section \<open>Events\<close>

text \<open>
  \<open>BlenderEvent\<close> and \<open>SverchokEvent\<close> are named tuples with the same six fields
  (\<open>type\<close>, \<open>tree\<close>, \<open>node\<close>, \<open>link\<close>, \<open>update_function\<close>, \<open>function_arguments\<close>);
  the fields are prefixed \<open>bl_\<close> and \<open>sv_\<close>.  A field that defaults to Python's \<open>None\<close>
  is an option.  The references to a host node and to a host link are kept as the
  identity of the object; the tree is kept as the object, since its nodes and links are
  read.  A callable is kept by name: what it does when called is given by the
  environment (see \<open>callables\<close> below).
\<close>

record BlenderEvent =
  bl_type :: BlenderEventsTypes
  bl_tree :: "NodeTree option"
  bl_node :: "string option"
  bl_link :: "string option"
  bl_update_function :: "string option"
  bl_function_arguments :: "string list"

record SverchokEvent =
  sv_type :: SverchokEventsTypes
  sv_tree :: "NodeTree option"
  sv_node :: "string option"
  sv_link :: "string option"
  sv_update_function :: "string option"
  sv_function_arguments :: "string list"

definition is_wave_end :: "BlenderEvent \<Rightarrow> bool" where
  "is_wave_end ev = (case IS_WAVE_END (bl_type ev) of Some b \<Rightarrow> b | None \<Rightarrow> False)"

definition convert_to_sverchok_event :: "BlenderEvent \<Rightarrow> SverchokEvent" where
  "convert_to_sverchok_event ev =
     \<lparr> sv_type = EVENT_CONVERSION (bl_type ev),
       sv_tree = bl_tree ev,
       sv_node = bl_node ev,
       sv_link = bl_link ev,
       sv_update_function = bl_update_function ev,
       sv_function_arguments = bl_function_arguments ev \<rparr>"

section \<open>The wave\<close>

record EventsWave =
  events_wave :: "BlenderEvent list"
  links_was_added :: bool
  links_was_removed :: bool
  reroutes_was_added :: bool
  reroutes_was_removed :: bool

text \<open>\<open>EventsWave()\<close>: the constructor.\<close>

definition new_EventsWave :: EventsWave where
  "new_EventsWave =
     \<lparr> events_wave = [], links_was_added = False, links_was_removed = False,
       reroutes_was_added = False, reroutes_was_removed = False \<rparr>"

definition add_event :: "EventsWave \<Rightarrow> BlenderEvent \<Rightarrow> EventsWave" where
  "add_event w bl_event =
     (if bl_type bl_event = node_update then w
      else w\<lparr>events_wave := events_wave w @ [bl_event]\<rparr>)"

text \<open>
  \<open>is_end\<close> returns \<open>self.events_wave and self.events_wave[-1].is_wave_end\<close>: on an empty
  list the conjunction yields the (falsy) empty list without evaluating the index.  The
  model is the truth value of the result, which is all its callers use.
\<close>

definition is_end :: "EventsWave \<Rightarrow> bool" where
  "is_end w = (events_wave w \<noteq> [] \<and> is_wave_end (last (events_wave w)))"

section \<open>Errors\<close>

text \<open>
  The exceptions of the module: \<open>RuntimeError\<close> is raised by
  \<open>convert_to_sverchok_events\<close>, \<open>LookupError\<close> by \<open>get_blender_tree\<close>; \<open>KeyError\<close>,
  \<open>IndexError\<close>, \<open>AttributeError\<close> and \<open>TypeError\<close> are what Python raises on a missing
  dictionary key, on an index into an empty list, on an attribute of \<open>None\<close> and on a
  loop over \<open>None\<close>; \<open>Raised\<close> is an exception of a callable of the host.
\<close>

datatype error =
  RuntimeError | AttributeError | LookupError | KeyError | IndexError | TypeError | Raised string

section \<open>The shadow graph\<close>

text \<open>
  \<open>SvLink\<close>, \<open>SvNode\<close> and \<open>SvTree\<close>.  A Python dictionary is an association list kept by
  \<open>AList.update\<close> (a new key goes to the end, an old key keeps its place), so \<open>len\<close> is
  \<open>length\<close>.  The collections \<open>NodesCollection\<close> and \<open>LinksCollection\<close> are their
  dictionaries \<open>_nodes\<close> and \<open>_links\<close>.  An \<open>SvLink\<close> refers to its two \<open>SvNode\<close> objects;
  the reference is the key of the node in the tree's \<open>nodes\<close>.
\<close>

record SvLink =
  sv_link_id :: string
  from_node :: string
  to_node :: string

record SvNode =
  sv_node_id :: string
  sv_node_name :: string
  inputs :: "(string \<times> SvLink) list"
  outputs :: "(string \<times> SvLink) list"

record SvTree =
  sv_tree_id :: string
  sv_nodes :: "(string \<times> SvNode) list"
  sv_links :: "(string \<times> SvLink) list"

definition new_SvTree :: "string \<Rightarrow> SvTree" where
  "new_SvTree tid = \<lparr> sv_tree_id = tid, sv_nodes = [], sv_links = [] \<rparr>"

definition new_SvNode :: "string \<Rightarrow> string \<Rightarrow> SvNode" where
  "new_SvNode nid nm = \<lparr> sv_node_id = nid, sv_node_name = nm, inputs = [], outputs = [] \<rparr>"

text \<open>\<open>NodesCollection.add\<close>\<close>

definition NodesCollection_add :: "SvTree \<Rightarrow> Node \<Rightarrow> SvTree" where
  "NodesCollection_add t node =
     t\<lparr>sv_nodes := AList.update (node_id node) (new_SvNode (node_id node) (node_name node)) (sv_nodes t)\<rparr>"

text \<open>
  \<open>LinksCollection.add\<close>: both nodes are looked up before anything is written (a missing
  key raises \<open>KeyError\<close>); then the link is stored in the outputs of the first node, in the
  inputs of the second and in the links of the tree.  When both ends are the same node
  the two writes go to the same object.
\<close>

definition link_identity :: "NodeLink \<Rightarrow> string" where
  "link_identity link = from_socket_id link @ to_socket_id link"

definition LinksCollection_add :: "SvTree \<Rightarrow> NodeLink \<Rightarrow> error + SvTree" where
  "LinksCollection_add t link =
     (let link_id = link_identity link in
      case map_of (sv_nodes t) (from_node_id link) of
        None \<Rightarrow> Inl KeyError
      | Some from_n \<Rightarrow>
          (case map_of (sv_nodes t) (to_node_id link) of
             None \<Rightarrow> Inl KeyError
           | Some to_n \<Rightarrow>
               (let sv_link = \<lparr> sv_link_id = link_id, from_node = from_node_id link,
                                to_node = to_node_id link \<rparr>;
                    from_n1 = from_n\<lparr>outputs := AList.update link_id sv_link (outputs from_n)\<rparr>;
                    to_n0 = (if to_node_id link = from_node_id link then from_n1 else to_n);
                    to_n1 = to_n0\<lparr>inputs := AList.update link_id sv_link (inputs to_n0)\<rparr>
                in Inr (t\<lparr>sv_nodes := AList.update (to_node_id link) to_n1
                                         (AList.update (from_node_id link) from_n1 (sv_nodes t)),
                          sv_links := AList.update link_id sv_link (sv_links t)\<rparr>))))"

text \<open>\<open>get_blender_tree\<close>: the first node group of the host of the right kind and identifier.\<close>

definition get_blender_tree :: "NodeTree list \<Rightarrow> SvTree \<Rightarrow> error + NodeTree" where
  "get_blender_tree groups t =
     (case find (\<lambda>ng. bl_idname ng = ''SverchCustomTreeType'' \<and> tree_id ng = sv_tree_id t) groups of
        None \<Rightarrow> Inl LookupError
      | Some ng \<Rightarrow> Inr ng)"

text \<open>
  The two comprehensions of \<open>total_reconstruction\<close>.  An exception leaves the tree as the
  calls before it have made it, so the tree is returned beside the error.
\<close>

fun add_nodes :: "SvTree \<Rightarrow> Node list \<Rightarrow> SvTree" where
  "add_nodes t [] = t"
| "add_nodes t (n # ns) = add_nodes (NodesCollection_add t n) ns"

fun add_links :: "SvTree \<Rightarrow> NodeLink list \<Rightarrow> error option \<times> SvTree" where
  "add_links t [] = (None, t)"
| "add_links t (l # ls) =
     (case LinksCollection_add t l of
        Inl e \<Rightarrow> (Some e, t)
      | Inr t' \<Rightarrow> add_links t' ls)"

definition total_reconstruction :: "NodeTree list \<Rightarrow> SvTree \<Rightarrow> error option \<times> SvTree" where
  "total_reconstruction groups t =
     (case get_blender_tree groups t of
        Inl e \<Rightarrow> (Some e, t)
      | Inr live \<Rightarrow> add_links (add_nodes t (tree_nodes live)) (tree_links live))"

text \<open>\<open>need_total_reconstruction\<close> returns \<open>bool(len(self.nodes))\<close>.\<close>

definition need_total_reconstruction :: "SvTree \<Rightarrow> bool" where
  "need_total_reconstruction t = (length (sv_nodes t) \<noteq> 0)"

text \<open>
  \<open>check_reconstruction_correctness\<close> prints one of two messages; the result here is
  which one (\<open>True\<close> for "Reconstruction is correct").
\<close>

definition check_reconstruction_correctness :: "NodeTree list \<Rightarrow> SvTree \<Rightarrow> error + bool" where
  "check_reconstruction_correctness groups t =
     (case get_blender_tree groups t of
        Inl e \<Rightarrow> Inl e
      | Inr live \<Rightarrow>
          Inr (set (map link_identity (tree_links live)) = set (map fst (sv_links t)) \<and>
               set (map node_id (tree_nodes live)) = set (map fst (sv_nodes t))))"

text \<open>
  \<open>SvTree.update_reconstruction\<close>; its argument \<open>sv_event\<close> is not read, so it may be
  of any type.  The first argument is the answer of \<open>is_in_debug_mode\<close>, the second the
  host's \<open>bpy.data.node_groups\<close>.
\<close>

definition update_reconstruction ::
  "bool \<Rightarrow> NodeTree list \<Rightarrow> SvTree \<Rightarrow> 'a \<Rightarrow> error option \<times> SvTree" where
  "update_reconstruction debug groups t sv_event =
     (case (if need_total_reconstruction t then total_reconstruction groups t else (None, t)) of
        (Some e, t1) \<Rightarrow> (Some e, t1)
      | (None, t1) \<Rightarrow>
          (if debug then
             (case check_reconstruction_correctness groups t1 of
                Inl e \<Rightarrow> (Some e, t1)
              | Inr _ \<Rightarrow> (None, t1))
           else (None, t1)))"

section \<open>The registry of shadow graphs\<close>

text \<open>
  \<open>NodeTreesReconstruction.node_trees\<close> is a dictionary of the class, empty at the start;
  no code of the module reads it or writes it.
\<close>

type_synonym registry = "(string \<times> SvTree) list"

text \<open>
  \<open>NodeTreesReconstruction.get_node_tree_reconstruction\<close>.  The body of the method is the
  expression \<open>...\<close> alone: the call evaluates it and returns \<open>None\<close>, whatever the
  registry and the node tree are.
\<close>

definition get_node_tree_reconstruction :: "registry \<Rightarrow> NodeTree option \<Rightarrow> SvTree option" where
  "get_node_tree_reconstruction reg node_tree = None"

section \<open>Classification of a wave\<close>

text \<open>The properties \<open>previous_tree\<close> and \<open>current_tree\<close> read \<open>self.events_wave[0]\<close>.\<close>

definition previous_tree :: "registry \<Rightarrow> EventsWave \<Rightarrow> error + SvTree option" where
  "previous_tree reg w =
     (case events_wave w of
        [] \<Rightarrow> Inl IndexError
      | ev # _ \<Rightarrow> Inr (get_node_tree_reconstruction reg (bl_tree ev)))"

definition current_tree :: "EventsWave \<Rightarrow> error + NodeTree option" where
  "current_tree w =
     (case events_wave w of
        [] \<Rightarrow> Inl IndexError
      | ev # _ \<Rightarrow> Inr (bl_tree ev))"

text \<open>
  \<open>analyze_changes\<close>; the result is the exception, if one is raised.  When the first
  event of the wave is \<open>tree_update\<close> or \<open>monad_tree_update\<close> the method computes four
  differences of lengths into local variables of the same names as the four flags of
  the wave; the flags themselves are not assigned.  The first of the four reads
  \<open>self.current_tree.links\<close> and then \<open>self.previous_tree.links\<close>: an attribute of \<open>None\<close>
  is an \<open>AttributeError\<close>.  The other branches are \<open>pass\<close> or annotations without a
  value.
\<close>

definition analyze_changes :: "registry \<Rightarrow> EventsWave \<Rightarrow> error option" where
  "analyze_changes reg w =
     (case events_wave w of
        [] \<Rightarrow> Some IndexError
      | ev # _ \<Rightarrow>
          (if bl_type ev = tree_update \<or> bl_type ev = monad_tree_update then
             (case bl_tree ev of
                None \<Rightarrow> Some AttributeError
              | Some cur \<Rightarrow>
                  (case previous_tree reg w of
                     Inl e \<Rightarrow> Some e
                   | Inr None \<Rightarrow> Some AttributeError
                   | Inr (Some prev) \<Rightarrow>
                       (let links_added = (int (length (tree_links cur)) - int (length (sv_links prev)) > 0);
                            links_removed = (int (length (tree_links cur)) - int (length (sv_links prev)) < 0);
                            reroutes_added = (int (length (tree_nodes cur)) - int (length (sv_nodes prev)) > 0);
                            reroutes_removed = (int (length (tree_nodes cur)) - int (length (sv_nodes prev)) < 0)
                        in None)))
           else None))"

text \<open>
  \<open>EventsWave.convert_known_events\<close>.  The body of the method is the expression \<open>...\<close>
  alone: the call returns \<open>None\<close>.  (The call of \<open>search_extra_events\<close> beside it in
  \<open>convert_to_sverchok_events\<close> is commented out.)
\<close>

definition convert_known_events :: "EventsWave \<Rightarrow> SverchokEvent list option" where
  "convert_known_events w = None"

text \<open>
  \<open>EventsWave.convert_to_sverchok_events\<close>.  The result is the exception or the value
  returned, which is a list of domain events or \<open>None\<close>.
\<close>

definition convert_to_sverchok_events ::
  "registry \<Rightarrow> EventsWave \<Rightarrow> error + SverchokEvent list option" where
  "convert_to_sverchok_events reg w =
     (if \<not> is_end w then Inl RuntimeError
      else
        (let tree_was_changed = (bl_type (last (events_wave w)) = tree_update \<or>
                                 bl_type (last (events_wave w)) = monad_tree_update)
         in if tree_was_changed then
              (case analyze_changes reg w of
                 Some e \<Rightarrow> Inl e
               | None \<Rightarrow> Inr (convert_known_events w))
            else Inr (Some (map convert_to_sverchok_event (events_wave w)))))"

section \<open>The scheduler\<close>

text \<open>
  The calls that leave the module are recorded in the order they are made: a redraw
  callback with its arguments, and \<open>process_from_nodes\<close> with its list of nodes.
\<close>

datatype call = Redraw string "string list" | Process "string option list"

text \<open>
  The state: the two attributes of the class \<open>CurrentEvents\<close> (\<open>events_wave\<close>, here
  \<open>wave\<close>, and \<open>_to_listen_new_events\<close>), the registry, and the calls made so far.
\<close>

record sched_state =
  wave :: EventsWave
  to_listen_new_events :: bool
  node_trees :: registry
  calls :: "call list"

text \<open>
  The environment: the answer of \<open>is_in_debug_mode\<close> (from the preferences), the host's
  \<open>bpy.data.node_groups\<close>, what each callable of the host does to the state when it is
  called (it may run any code, also \<open>CurrentEvents.add_new_event\<close>) and whether it raises,
  and whether \<open>process_from_nodes\<close> (module \<open>sverchok.core.update_system\<close>) raises.
  What the module prints in debug mode is not part of the state.
\<close>

record env =
  debug_mode :: bool
  node_groups :: "NodeTree list"
  callables :: "string \<Rightarrow> string list \<Rightarrow> sched_state \<Rightarrow> error option \<times> sched_state"
  process_from_nodes :: "string option list \<Rightarrow> error option"

text \<open>\<open>SverchokEvent.redraw_node\<close> and \<open>CurrentEvents.redraw_nodes\<close>\<close>

definition redraw_node :: "env \<Rightarrow> sched_state \<Rightarrow> SverchokEvent \<Rightarrow> error option \<times> sched_state" where
  "redraw_node en s sv_event =
     (case sv_update_function sv_event of
        None \<Rightarrow> (None, s)
      | Some f \<Rightarrow>
          callables en f (sv_function_arguments sv_event)
            (s\<lparr>calls := calls s @ [Redraw f (sv_function_arguments sv_event)]\<rparr>))"

fun redraw_nodes :: "env \<Rightarrow> sched_state \<Rightarrow> SverchokEvent list \<Rightarrow> error option \<times> sched_state" where
  "redraw_nodes en s [] = (None, s)"
| "redraw_nodes en s (sv_event # rest) =
     (case redraw_node en s sv_event of
        (Some e, s') \<Rightarrow> (Some e, s')
      | (None, s') \<Rightarrow> redraw_nodes en s' rest)"

text \<open>\<open>CurrentEvents.update_nodes\<close>\<close>

definition update_nodes :: "env \<Rightarrow> sched_state \<Rightarrow> SverchokEvent list \<Rightarrow> error option \<times> sched_state" where
  "update_nodes en s sverchok_events =
     (let ns = map sv_node (filter (\<lambda>ev. sv_type ev \<noteq> sv_free_node) sverchok_events)
      in (process_from_nodes en ns, s\<lparr>calls := calls s @ [Process ns]\<rparr>))"

text \<open>\<open>CurrentEvents.tree_reconstruction\<close>\<close>

definition tree_reconstruction :: "sched_state \<Rightarrow> error + SvTree option" where
  "tree_reconstruction s = previous_tree (node_trees s) (wave s)"

text \<open>
  \<open>CurrentEvents.handle_new_event\<close>.  The statements run one after the other; an
  exception of one of them ends the call with the state as it is at that point.  The
  second statement calls the method \<open>update_reconstruction\<close> of what
  \<open>tree_reconstruction\<close> returns: on \<open>None\<close> this is an \<open>AttributeError\<close>.  The loop of
  \<open>redraw_nodes\<close> over \<open>None\<close> would be a \<open>TypeError\<close>.  A shadow graph that
  \<open>update_reconstruction\<close> has changed is an object of the caller's; the state holds no
  reference to it.
\<close>

definition handle_new_event :: "env \<Rightarrow> sched_state \<Rightarrow> error option \<times> sched_state" where
  "handle_new_event en s =
     (if \<not> is_end (wave s) then (None, s)
      else
        (let s1 = s\<lparr>to_listen_new_events := False\<rparr> in
         case convert_to_sverchok_events (node_trees s1) (wave s1) of
           Inl e \<Rightarrow> (Some e, s1)
         | Inr sv_events \<Rightarrow>
             (case tree_reconstruction s1 of
                Inl e \<Rightarrow> (Some e, s1)
              | Inr None \<Rightarrow> (Some AttributeError, s1)
              | Inr (Some t) \<Rightarrow>
                  (case update_reconstruction (debug_mode en) (node_groups en) t sv_events of
                     (Some e, t') \<Rightarrow> (Some e, s1)
                   | (None, t') \<Rightarrow>
                       (case sv_events of
                          None \<Rightarrow> (Some TypeError, s1)
                        | Some evs \<Rightarrow>
                            (case redraw_nodes en s1 evs of
                               (Some e, s4) \<Rightarrow> (Some e, s4)
                             | (None, s4) \<Rightarrow>
                                 (case update_nodes en s4 evs of
                                    (Some e, s5) \<Rightarrow> (Some e, s5)
                                  | (None, s5) \<Rightarrow>
                                      (None, s5\<lparr>to_listen_new_events := True,
                                                 wave := new_EventsWave\<rparr>))))))))"

text \<open>\<open>CurrentEvents.add_new_event\<close>\<close>

definition add_new_event :: "env \<Rightarrow> sched_state \<Rightarrow> BlenderEvent \<Rightarrow> error option \<times> sched_state" where
  "add_new_event en s bl_event =
     (if \<not> to_listen_new_events s then (None, s)
      else handle_new_event en (s\<lparr>wave := add_event (wave s) bl_event\<rparr>))"

text \<open>
  The host calls \<open>add_new_event\<close> once for each raw event; an exception of one call goes
  to the host and does not stop the later calls.  The result is the state after the
  last call, with the errors of the calls in order.
\<close>

fun add_new_events :: "env \<Rightarrow> sched_state \<Rightarrow> BlenderEvent list \<Rightarrow> error option list \<times> sched_state" where
  "add_new_events en s [] = ([], s)"
| "add_new_events en s (ev # evs) =
     (case add_new_event en s ev of
        (r, s') \<Rightarrow> (case add_new_events en s' evs of (rs, s'') \<Rightarrow> (r # rs, s'')))"

section \<open>Notions used in the statements\<close>

text \<open>The redraw calls that a list of domain events gives rise to, in the order of the list.\<close>

definition redraw_calls :: "SverchokEvent list \<Rightarrow> call list" where
  "redraw_calls evs =
     concat (map (\<lambda>e. case sv_update_function e of
                         None \<Rightarrow> []
                       | Some f \<Rightarrow> [Redraw f (sv_function_arguments e)]) evs)"

text \<open>The node references handed to the recomputation engine for a list of domain events.\<close>

definition surviving_nodes :: "SverchokEvent list \<Rightarrow> string option list" where
  "surviving_nodes evs = map sv_node (filter (\<lambda>ev. sv_type ev \<noteq> sv_free_node) evs)"

fun is_Process :: "call \<Rightarrow> bool" where
  "is_Process (Process _) = True"
| "is_Process (Redraw _ _) = False"

text \<open>How often the recomputation engine has been called.\<close>

definition process_count :: "call list \<Rightarrow> nat" where
  "process_count cs = length (filter is_Process cs)"

text \<open>A callable that returns at once and leaves the state alone.\<close>

definition inert :: "string \<Rightarrow> string list \<Rightarrow> sched_state \<Rightarrow> error option \<times> sched_state" where
  "inert f args s = (None, s)"

section \<open>Example data\<close>

text \<open>A live graph of three nodes and two links, and the events and states of the examples.\<close>

definition ex_tree :: NodeTree where
  "ex_tree =
     \<lparr> bl_idname = ''SverchCustomTreeType'', tree_id = ''T'',
       tree_nodes = [\<lparr>node_id = ''n1'', node_name = ''A''\<rparr>,
                     \<lparr>node_id = ''n2'', node_name = ''B''\<rparr>,
                     \<lparr>node_id = ''n3'', node_name = ''C''\<rparr>],
       tree_links = [\<lparr>from_socket_id = ''a'', to_socket_id = ''b'', from_node_id = ''n1'', to_node_id = ''n2''\<rparr>,
                     \<lparr>from_socket_id = ''c'', to_socket_id = ''d'', from_node_id = ''n2'', to_node_id = ''n3''\<rparr>] \<rparr>"

definition ex_event :: "BlenderEventsTypes \<Rightarrow> string option \<Rightarrow> string option \<Rightarrow> BlenderEvent" where
  "ex_event k n f =
     \<lparr> bl_type = k, bl_tree = Some ex_tree, bl_node = n, bl_link = None,
       bl_update_function = f, bl_function_arguments = [] \<rparr>"

definition ex_state :: sched_state where
  "ex_state = \<lparr> wave = new_EventsWave, to_listen_new_events = True, node_trees = [], calls = [] \<rparr>"

definition ex_env :: env where
  "ex_env = \<lparr> debug_mode = False, node_groups = [ex_tree], callables = inert,
             process_from_nodes = (\<lambda>ns. None) \<rparr>"

text \<open>An environment whose callables raise.\<close>

definition ex_env_raising :: env where
  "ex_env_raising = ex_env\<lparr>callables := (\<lambda>f args s. (Some (Raised f), s))\<rparr>"

text \<open>An environment whose callables call \<open>add_new_event\<close> with a node-added event.\<close>

definition ex_env_nested :: env where
  "ex_env_nested =
     ex_env\<lparr>callables := (\<lambda>f args s. add_new_event ex_env s (ex_event add_node (Some ''n9'') None))\<rparr>"

text \<open>A shadow graph that holds one node, and a registry that holds this shadow graph.\<close>

definition ex_shadow :: SvTree where
  "ex_shadow = NodesCollection_add (new_SvTree ''T'') \<lparr>node_id = ''n0'', node_name = ''Z''\<rparr>"

text \<open>A state whose registry holds this shadow graph for the live graph.\<close>

definition ex_state_shadow :: sched_state where
  "ex_state_shadow = ex_state\<lparr>node_trees := [(''T'', ex_shadow)]\<rparr>"

text \<open>A host from which the graph has disappeared, and a recomputation engine that raises.\<close>

definition ex_env_no_graph :: env where
  "ex_env_no_graph = ex_env\<lparr>node_groups := []\<rparr>"

definition ex_env_engine_raising :: env where
  "ex_env_engine_raising = ex_env\<lparr>process_from_nodes := (\<lambda>ns. Some (Raised ''engine''))\<rparr>"

text \<open>A graph-topology-changed event that names no graph.\<close>

definition ex_event_no_tree :: BlenderEvent where
  "ex_event_no_tree = (ex_event tree_update None None)\<lparr>bl_tree := None\<rparr>"

text \<open>A wave that holds the given events, and the state in which it is the active wave.\<close>

definition ex_wave :: "BlenderEvent list \<Rightarrow> EventsWave" where
  "ex_wave evs = new_EventsWave\<lparr>events_wave := evs\<rparr>"

definition ex_state_wave :: "BlenderEvent list \<Rightarrow> sched_state" where
  "ex_state_wave evs = ex_state\<lparr>wave := ex_wave evs\<rparr>"

text \<open>A state in the middle of a dispatch: the flag is lowered.\<close>

definition ex_state_dispatching :: sched_state where
  "ex_state_dispatching =
     (ex_state_wave [ex_event node_property_update (Some ''n2'') (Some ''f'')])\<lparr>to_listen_new_events := False\<rparr>"

section \<open>Basic facts\<close>

lemmas ex_defs = ex_tree_def ex_event_def ex_state_def ex_env_def ex_env_raising_def ex_env_nested_def
  ex_shadow_def ex_state_shadow_def ex_env_no_graph_def ex_env_engine_raising_def ex_event_no_tree_def
  ex_wave_def ex_state_wave_def ex_state_dispatching_def

lemmas run_defs = add_new_event_def handle_new_event_def add_event_def is_end_def is_wave_end_def
  convert_to_sverchok_events_def convert_to_sverchok_event_def analyze_changes_def convert_known_events_def
  previous_tree_def get_node_tree_reconstruction_def tree_reconstruction_def
  update_reconstruction_def need_total_reconstruction_def total_reconstruction_def get_blender_tree_def
  NodesCollection_add_def LinksCollection_add_def link_identity_def new_SvTree_def new_SvNode_def
  new_EventsWave_def redraw_node_def update_nodes_def inert_def Let_def

lemma is_wave_end_iff:
  "is_wave_end ev \<longleftrightarrow>
     bl_type ev \<in> {tree_update, monad_tree_update, undo, frame_change, node_property_update}"
  by (cases "bl_type ev") (simp_all add: is_wave_end_def)

lemma handle_not_ended: "\<not> is_end (wave s) \<Longrightarrow> handle_new_event en s = (None, s)"
  by (simp add: handle_new_event_def)

lemma add_new_event_suppressed:
  "\<not> to_listen_new_events s \<Longrightarrow> add_new_event en s ev = (None, s)"
  by (simp add: add_new_event_def)

lemma not_ended_add_event:
  "\<not> is_end w \<Longrightarrow> \<not> is_wave_end e \<Longrightarrow> \<not> is_end (add_event w e)"
  by (simp add: is_end_def add_event_def)

lemma ended_add_event: "is_wave_end e \<Longrightarrow> is_end (add_event w e)"
  by (cases "bl_type e") (simp_all add: is_end_def add_event_def is_wave_end_def)

lemma add_event_append:
  "(add_event w e)\<lparr>events_wave := events_wave (add_event w e) @ xs\<rparr> =
   w\<lparr>events_wave := events_wave w @ filter (\<lambda>e. bl_type e \<noteq> node_update) [e] @ xs\<rparr>"
  by (simp add: add_event_def)

lemma redraw_calls_Nil: "redraw_calls [] = []"
  by (simp add: redraw_calls_def)

lemma redraw_calls_Cons:
  "redraw_calls (e # es) =
     (case sv_update_function e of
        None \<Rightarrow> []
      | Some f \<Rightarrow> [Redraw f (sv_function_arguments e)]) @ redraw_calls es"
  by (simp add: redraw_calls_def)

section \<open>The redraw loop\<close>

text \<open>
  When no callable makes a recorded call of its own, a redraw loop that returns has
  recorded the redraw calls of its events, in order.
\<close>

lemma redraw_nodes_calls:
  assumes cb: "\<And>f a s0. calls (snd (callables en f a s0)) = calls s0"
  shows "redraw_nodes en s evs = (None, s') \<Longrightarrow> calls s' = calls s @ redraw_calls evs"
proof (induction evs arbitrary: s)
  case Nil
  then show ?case by (simp add: redraw_calls_Nil)
next
  case (Cons e es)
  obtain r s1 where step: "redraw_node en s e = (r, s1)"
    by (cases "redraw_node en s e")
  with Cons.prems have rest: "redraw_nodes en s1 es = (None, s')"
    by (auto split: option.splits)
  have c1: "calls s1 = calls s @
      (case sv_update_function e of None \<Rightarrow> [] | Some f \<Rightarrow> [Redraw f (sv_function_arguments e)])"
  proof (cases "sv_update_function e")
    case None
    with step show ?thesis by (simp add: redraw_node_def)
  next
    case (Some f)
    with step have "s1 = snd (callables en f (sv_function_arguments e)
        (s\<lparr>calls := calls s @ [Redraw f (sv_function_arguments e)]\<rparr>))"
      by (simp add: redraw_node_def)
    then show ?thesis using Some by (simp add: cb)
  qed
  from Cons.IH[OF rest] c1 show ?case by (simp add: redraw_calls_Cons)
qed

text \<open>\<open>update_nodes\<close> makes one call of the engine, with one entry for each event that is not node-freed.\<close>

lemma update_nodes_calls:
  "calls (snd (update_nodes en s evs)) = calls s @ [Process (surviving_nodes evs)]"
  by (simp add: update_nodes_def surviving_nodes_def Let_def)

section \<open>The dispatch\<close>

text \<open>
  The lookup of the shadow graph returns \<open>None\<close>, so the dispatch of an ended wave never
  returns: it ends with an exception, of classification or of the call of
  \<open>update_reconstruction\<close> on \<open>None\<close>, before a redraw callback or the engine is called.
  The state it leaves is the state it found with the flag lowered.
\<close>

lemma tree_reconstruction_None:
  "events_wave (wave s) \<noteq> [] \<Longrightarrow> tree_reconstruction s = Inr None"
  by (cases "events_wave (wave s)")
     (simp_all add: tree_reconstruction_def previous_tree_def get_node_tree_reconstruction_def)

lemma dispatch_raises:
  assumes ended: "is_end (wave s)"
  shows "\<exists>e. handle_new_event en s = (Some e, s\<lparr>to_listen_new_events := False\<rparr>)"
proof -
  from ended have ne: "events_wave (wave (s\<lparr>to_listen_new_events := False\<rparr>)) \<noteq> []"
    by (simp add: is_end_def)
  show ?thesis
    using ended tree_reconstruction_None[OF ne]
    by (simp add: handle_new_event_def Let_def split: sum.splits)
qed

text \<open>Every exit of the dispatch by an exception leaves the flag lowered.\<close>

lemma error_exit_keeps_flag_lowered:
  assumes ended: "is_end (wave s)"
      and err: "handle_new_event en s = (Some e, s')"
  shows "\<not> to_listen_new_events s'"
proof -
  from dispatch_raises[OF ended, of en] err
  have "s' = s\<lparr>to_listen_new_events := False\<rparr>" by auto
  then show ?thesis by simp
qed

text \<open>Once the flag is lowered and stays so, every later call is dropped.\<close>

lemma suppressed_forever:
  "\<not> to_listen_new_events s \<Longrightarrow> add_new_events en s evs = (replicate (length evs) None, s)"
  by (induction evs) (simp_all add: add_new_event_suppressed)

section \<open>A sequence of calls\<close>

lemma ingest_non_terminators:
  "to_listen_new_events s \<Longrightarrow> \<not> is_end (wave s) \<Longrightarrow> \<forall>e \<in> set evs. \<not> is_wave_end e \<Longrightarrow>
   add_new_events en s evs =
     (replicate (length evs) None,
      s\<lparr>wave := (wave s)\<lparr>events_wave :=
           events_wave (wave s) @ filter (\<lambda>e. bl_type e \<noteq> node_update) evs\<rparr>\<rparr>)"
proof (induction evs arbitrary: s)
  case Nil
  then show ?case by simp
next
  case (Cons e es)
  let ?s1 = "s\<lparr>wave := add_event (wave s) e\<rparr>"
  from Cons.prems have ne: "\<not> is_end (wave ?s1)"
    by (simp add: not_ended_add_event)
  with Cons.prems have step: "add_new_event en s e = (None, ?s1)"
    by (simp add: add_new_event_def handle_not_ended)
  from Cons.prems ne have "add_new_events en ?s1 es =
     (replicate (length es) None,
      ?s1\<lparr>wave := (wave ?s1)\<lparr>events_wave :=
            events_wave (wave ?s1) @ filter (\<lambda>e. bl_type e \<noteq> node_update) es\<rparr>\<rparr>)"
    by (intro Cons.IH) simp_all
  with step show ?case by (simp add: add_event_append)
qed

lemma add_new_events_append:
  "add_new_events en s (xs @ ys) =
     (case add_new_events en s xs of
        (rs, s1) \<Rightarrow> (case add_new_events en s1 ys of (rs', s2) \<Rightarrow> (rs @ rs', s2)))"
  by (induction xs arbitrary: s) (auto split: prod.splits)

section \<open>Reconciliation\<close>

lemma update_reconstruction_empty:
  "sv_nodes t = [] \<Longrightarrow> update_reconstruction False groups t evs = (None, t)"
  by (simp add: update_reconstruction_def need_total_reconstruction_def)

lemma update_reconstruction_nonempty:
  "sv_nodes t \<noteq> [] \<Longrightarrow> update_reconstruction False groups t evs = total_reconstruction groups t"
  by (auto simp: update_reconstruction_def need_total_reconstruction_def
      split: prod.splits option.splits)

section \<open>Classification of a topology-changed wave\<close>

text \<open>
  For an ended wave whose last event is \<open>tree_update\<close> or \<open>monad_tree_update\<close>,
  classification raises or returns \<open>None\<close>; it returns no list of domain events.
\<close>

lemma topology_wave_no_events:
  assumes "is_end w"
      and "bl_type (last (events_wave w)) \<in> {tree_update, monad_tree_update}"
  shows "convert_to_sverchok_events reg w \<noteq> Inr (Some evs)"
  using assms
  by (auto simp: convert_to_sverchok_events_def convert_known_events_def Let_def
      split: option.splits)

section \<open>The claims\<close>

text \<open>
  Claim C1.  The claim: when classification, reconciliation, redraw notification or
  recomputation raises during the dispatch in \<open>handle_new_event\<close>, the flag
  \<open>_to_listen_new_events\<close> is still restored to \<open>True\<close>, so that a later call is not
  dropped.  The code lowers the flag, runs the four steps and raises the flag in plain
  sequence.  The theorem runs it on four inputs: a property-changed event whose redraw
  callback raises, a graph-topology-changed event that names no graph, an undo for a
  graph that has disappeared from the host, and an undo with a recomputation engine
  that raises.  On the second input classification raises; on the others the call of
  \<open>update_reconstruction\<close> on \<open>None\<close> raises, before the callback, the host or the engine
  is reached.  Each time the call ends with the error and the flag lowered, and on the
  first input the next call, an undo, returns with the state unchanged.
\<close>

theorem flag_stays_lowered_after_error:
  "fst (add_new_event ex_env_raising ex_state
          (ex_event node_property_update (Some ''n2'') (Some ''f''))) = Some AttributeError
   \<and> \<not> to_listen_new_events (snd (add_new_event ex_env_raising ex_state
          (ex_event node_property_update (Some ''n2'') (Some ''f''))))
   \<and> add_new_event ex_env_raising
        (snd (add_new_event ex_env_raising ex_state
               (ex_event node_property_update (Some ''n2'') (Some ''f''))))
        (ex_event undo None None)
      = (None, snd (add_new_event ex_env_raising ex_state
               (ex_event node_property_update (Some ''n2'') (Some ''f''))))
   \<and> fst (add_new_event ex_env ex_state ex_event_no_tree) = Some AttributeError
   \<and> \<not> to_listen_new_events (snd (add_new_event ex_env ex_state ex_event_no_tree))
   \<and> fst (add_new_event ex_env_no_graph ex_state_shadow (ex_event undo None None)) = Some AttributeError
   \<and> \<not> to_listen_new_events (snd (add_new_event ex_env_no_graph ex_state_shadow (ex_event undo None None)))
   \<and> fst (add_new_event ex_env_engine_raising ex_state (ex_event undo None None)) = Some AttributeError
   \<and> \<not> to_listen_new_events (snd (add_new_event ex_env_engine_raising ex_state (ex_event undo None None)))"
  by (simp add: ex_defs run_defs)

text \<open>
  Claim C2.  The claim: reconciliation of an empty shadow graph is a total
  reconstruction from the live graph, and reconciliation of a shadow graph that is not
  empty is not.  \<open>need_total_reconstruction\<close> returns \<open>bool(len(self.nodes))\<close>, which is
  true of the shadow graph that is not empty.  The theorem runs \<open>update_reconstruction\<close>
  on the empty shadow graph of a live graph of three nodes and two links, which stays
  empty, and on a shadow graph of one node, which is reconstructed from the live graph.
\<close>

theorem reconstruction_condition_inverted:
  "need_total_reconstruction (new_SvTree ''T'') = False
   \<and> update_reconstruction False [ex_tree] (new_SvTree ''T'') [] = (None, new_SvTree ''T'')
   \<and> need_total_reconstruction ex_shadow = True
   \<and> update_reconstruction False [ex_tree] ex_shadow [] = total_reconstruction [ex_tree] ex_shadow
   \<and> map fst (sv_nodes (snd (update_reconstruction False [ex_tree] ex_shadow [])))
        = [''n0'', ''n1'', ''n2'', ''n3'']
   \<and> map fst (sv_links (snd (update_reconstruction False [ex_tree] ex_shadow [])))
        = [''ab'', ''cd'']"
  by (simp add: ex_defs run_defs)

text \<open>
  Claim C3.  The claim: classification of an ended wave whose last event is
  \<open>tree_update\<close> or \<open>monad_tree_update\<close> produces node-added events for the nodes of the
  live graph that the shadow graph lacks, node-freed events for the nodes of the shadow
  graph that the live graph lacks, and link events likewise.  The theorem runs
  \<open>convert_to_sverchok_events\<close> with a shadow graph of the one node \<open>n0\<close> in the registry
  and the live graph of the nodes \<open>n1\<close>, \<open>n2\<close>, \<open>n3\<close>, on two waves.  On the wave of a
  single \<open>tree_update\<close> the call raises \<open>AttributeError\<close> in \<open>analyze_changes\<close>; on the
  wave of a node-added event and a \<open>tree_update\<close> it returns \<open>None\<close>.  Neither gives a
  domain event.
\<close>

theorem topology_wave_yields_no_events:
  "convert_to_sverchok_events [(''T'', ex_shadow)] (ex_wave [ex_event tree_update None None])
     = Inl AttributeError
   \<and> convert_to_sverchok_events [(''T'', ex_shadow)]
        (ex_wave [ex_event add_node (Some ''n1'') None, ex_event tree_update None None])
     = Inr None"
  by (simp add: ex_defs run_defs)

text \<open>
  Claim C4.  The claim: the calls of \<open>add_new_event\<close> for events that are no
  terminators and then for one terminator run the cycle of classification,
  reconciliation, redraw and recomputation exactly once, on the terminator, and leave a
  new empty wave.  The theorem runs the calls for a node-added event, a \<open>node_update\<close>,
  a link-added event and a \<open>tree_update\<close> on the initial state.  The first three return
  and only fill the buffer.  The fourth ends with \<open>AttributeError\<close>: the engine has
  not been called, the buffer still holds the three events that were appended, and the
  flag is lowered.
\<close>

theorem terminator_dispatch_raises:
  "add_new_events ex_env ex_state
     [ex_event add_node (Some ''n1'') None, ex_event node_update (Some ''n1'') None,
      ex_event add_link_to_node (Some ''n1'') None, ex_event tree_update None None]
   = ([None, None, None, Some AttributeError],
      (ex_state_wave [ex_event add_node (Some ''n1'') None,
                      ex_event add_link_to_node (Some ''n1'') None,
                      ex_event tree_update None None])\<lparr>to_listen_new_events := False\<rparr>)
   \<and> process_count (calls (snd (add_new_events ex_env ex_state
        [ex_event add_node (Some ''n1'') None, ex_event node_update (Some ''n1'') None,
         ex_event add_link_to_node (Some ''n1'') None, ex_event tree_update None None]))) = 0
   \<and> wave (snd (add_new_events ex_env ex_state
        [ex_event add_node (Some ''n1'') None, ex_event node_update (Some ''n1'') None,
         ex_event add_link_to_node (Some ''n1'') None, ex_event tree_update None None]))
       \<noteq> new_EventsWave"
  by (simp add: ex_defs run_defs process_count_def)

text \<open>
  Claim C5.  The claim: a call of \<open>add_new_event\<close> made while a dispatch is in
  progress is dropped, and the outer dispatch still completes and raises the flag.  The
  theorem runs the dispatch of a wave of one property-changed event whose redraw
  callback calls \<open>add_new_event\<close>.  The dispatch ends with \<open>AttributeError\<close> before the
  callback is called (no call is recorded) and leaves the flag lowered.  In the state
  it leaves, a call of \<open>add_new_event\<close> returns with the state unchanged: the drop
  itself is as the claim says.
\<close>

theorem dispatch_raises_before_redraw:
  "handle_new_event ex_env_nested
     (ex_state_wave [ex_event node_property_update (Some ''n2'') (Some ''f'')])
   = (Some AttributeError, ex_state_dispatching)
   \<and> calls ex_state_dispatching = []
   \<and> \<not> to_listen_new_events ex_state_dispatching
   \<and> add_new_event ex_env_nested ex_state_dispatching (ex_event add_node (Some ''n9'') None)
       = (None, ex_state_dispatching)"
  by (simp add: ex_defs run_defs)

text \<open>
  Claim C6.  \<open>convert_to_sverchok_events\<close> on a wave that has not ended, its buffer
  empty or its last event no terminator, raises \<open>RuntimeError\<close>: the error is the
  result of the call, which returns no events.
\<close>

theorem convert_before_wave_end_raises:
  assumes "events_wave w = [] \<or> \<not> is_wave_end (last (events_wave w))"
  shows "convert_to_sverchok_events reg w = Inl RuntimeError"
  using assms by (auto simp: is_end_def convert_to_sverchok_events_def)

theorem convert_before_wave_end_raises_witness:
  "\<not> is_wave_end (last (events_wave (ex_wave [ex_event add_node (Some ''n1'') None])))
   \<and> convert_to_sverchok_events [] (ex_wave [ex_event add_node (Some ''n1'') None]) = Inl RuntimeError
   \<and> events_wave (ex_wave []) = []
   \<and> convert_to_sverchok_events [] (ex_wave []) = Inl RuntimeError"
proof -
  have h: "\<not> is_wave_end (last (events_wave (ex_wave [ex_event add_node (Some ''n1'') None])))"
    by (simp add: ex_defs is_wave_end_def)
  have e: "events_wave (ex_wave []) = []"
    by (simp add: ex_defs)
  from h have h': "events_wave (ex_wave [ex_event add_node (Some ''n1'') None]) = [] \<or>
        \<not> is_wave_end (last (events_wave (ex_wave [ex_event add_node (Some ''n1'') None])))"
    by simp
  from e have e': "events_wave (ex_wave []) = [] \<or> \<not> is_wave_end (last (events_wave (ex_wave [])))"
    by simp
  from convert_before_wave_end_raises [OF h'] convert_before_wave_end_raises [OF e'] h e
  show ?thesis by blast
qed

text \<open>
  Claim C7.  A wave has ended exactly when its buffer is not empty and the kind of its
  last event is one of \<open>tree_update\<close>, \<open>monad_tree_update\<close>, \<open>undo\<close>, \<open>frame_change\<close> and
  \<open>node_property_update\<close>.  Appending an event of one of these kinds ends the wave;
  appending an event of kind \<open>add_node\<close>, \<open>copy_node\<close>, \<open>free_node\<close> or
  \<open>add_link_to_node\<close> never does.
\<close>

theorem wave_end_iff_terminator:
  "(is_end w \<longleftrightarrow> events_wave w \<noteq> [] \<and>
      bl_type (last (events_wave w)) \<in>
        {tree_update, monad_tree_update, undo, frame_change, node_property_update})
   \<and> (bl_type ev \<in> {add_node, copy_node, free_node, add_link_to_node} \<longrightarrow>
        \<not> is_end (add_event w ev))
   \<and> (bl_type ev' \<in> {tree_update, monad_tree_update, undo, frame_change, node_property_update} \<longrightarrow>
        is_end (add_event w ev'))"
  by (auto simp: is_end_def is_wave_end_iff add_event_def)

theorem wave_end_iff_terminator_witness:
  "bl_type (ex_event add_node (Some ''n1'') None) \<in> {add_node, copy_node, free_node, add_link_to_node}
   \<and> \<not> is_end (add_event (ex_wave [ex_event undo None None]) (ex_event add_node (Some ''n1'') None))
   \<and> bl_type (ex_event undo None None)
        \<in> {tree_update, monad_tree_update, undo, frame_change, node_property_update}
   \<and> is_end (add_event (ex_wave []) (ex_event undo None None))"
  using wave_end_iff_terminator
          [of "ex_wave [ex_event undo None None]" "ex_event add_node (Some ''n1'') None"
              "ex_event undo None None"]
        wave_end_iff_terminator
          [of "ex_wave []" "ex_event add_node (Some ''n1'') None" "ex_event undo None None"]
  by (simp add: ex_event_def)

text \<open>
  Claim C8.  The claim: on wave end the redraw callbacks are called in the order of
  the events, then the recomputation engine is called once with the nodes of all domain
  events but the node-freed ones, and for the wave of the single event \<open>undo\<close> it is
  called with the empty list.  The theorem runs the call of \<open>add_new_event\<close> for an undo
  event on the initial state: it ends with \<open>AttributeError\<close> and no call of a callback
  or of the engine has been made.  The second half runs the two steps that were not
  reached: classification of the wave gives one domain event, and \<open>update_nodes\<close> on
  that event calls the engine with the list \<open>[None]\<close> of one entry, not with the empty
  list.
\<close>

theorem undo_wave_reaches_no_engine:
  "add_new_event ex_env ex_state (ex_event undo None None)
   = (Some AttributeError,
      (ex_state_wave [ex_event undo None None])\<lparr>to_listen_new_events := False\<rparr>)
   \<and> calls (snd (add_new_event ex_env ex_state (ex_event undo None None))) = []
   \<and> convert_to_sverchok_events [] (ex_wave [ex_event undo None None])
       = Inr (Some [convert_to_sverchok_event (ex_event undo None None)])
   \<and> calls (snd (update_nodes ex_env ex_state [convert_to_sverchok_event (ex_event undo None None)]))
       = [Process [None]]"
  by (simp add: ex_defs run_defs)

text \<open>
  Claim C9.  For an event of kind \<open>node_update\<close>, \<open>add_event\<close> returns the wave as it
  was, whatever the wave; and \<open>add_new_event\<close> returns the state as it was, whenever
  the flag is lowered or the wave has not ended (with the flag raised a wave has not
  ended between two calls, since a call that ends it dispatches it).
\<close>

theorem node_update_not_buffered:
  "bl_type ev = node_update \<longrightarrow>
     add_event w ev = w \<and>
     (\<not> to_listen_new_events s \<or> \<not> is_end (wave s) \<longrightarrow> add_new_event en s ev = (None, s))"
  by (auto simp: add_event_def add_new_event_def handle_new_event_def)

theorem node_update_not_buffered_witness:
  "bl_type (ex_event node_update (Some ''n1'') None) = node_update
   \<and> add_event (ex_wave [ex_event add_node (Some ''n1'') None]) (ex_event node_update (Some ''n1'') None)
       = ex_wave [ex_event add_node (Some ''n1'') None]
   \<and> \<not> is_end (wave (ex_state_wave [ex_event add_node (Some ''n1'') None]))
   \<and> add_new_event ex_env (ex_state_wave [ex_event add_node (Some ''n1'') None])
        (ex_event node_update (Some ''n1'') None)
       = (None, ex_state_wave [ex_event add_node (Some ''n1'') None])"
proof -
  have h1: "bl_type (ex_event node_update (Some ''n1'') None) = node_update"
    by (simp add: ex_event_def)
  have h2: "\<not> is_end (wave (ex_state_wave [ex_event add_node (Some ''n1'') None]))"
    by (simp add: ex_defs is_end_def is_wave_end_def)
  from node_update_not_buffered
         [of "ex_event node_update (Some ''n1'') None" "ex_wave [ex_event add_node (Some ''n1'') None]"
             "ex_state_wave [ex_event add_node (Some ''n1'') None]" ex_env] h1 h2
  show ?thesis by simp
qed

text \<open>
  Claim C10.  On an empty buffer \<open>is_end\<close> is false, without a read of the last
  element.  So \<open>handle_new_event\<close> on a state whose buffer is empty returns at once with
  the state as it was, classification is not called, and a call of \<open>add_new_event\<close>
  for an event that is filtered out (\<open>node_update\<close>) changes nothing.
\<close>

theorem empty_wave_not_ended:
  "events_wave (wave s) = [] \<longrightarrow>
     is_end (wave s) = False
     \<and> handle_new_event en s = (None, s)
     \<and> (bl_type ev = node_update \<longrightarrow> add_new_event en s ev = (None, s))"
  by (auto simp: is_end_def add_event_def add_new_event_def handle_new_event_def)

theorem empty_wave_not_ended_witness:
  "events_wave (wave ex_state) = []
   \<and> is_end (wave ex_state) = False
   \<and> handle_new_event ex_env ex_state = (None, ex_state)
   \<and> bl_type (ex_event node_update (Some ''n1'') None) = node_update
   \<and> add_new_event ex_env ex_state (ex_event node_update (Some ''n1'') None) = (None, ex_state)"
proof -
  have h1: "events_wave (wave ex_state) = []" by (simp add: ex_state_def new_EventsWave_def)
  have h2: "bl_type (ex_event node_update (Some ''n1'') None) = node_update"
    by (simp add: ex_event_def)
  from empty_wave_not_ended [of ex_state ex_env "ex_event node_update (Some ''n1'') None"] h1 h2
  show ?thesis by simp
qed

end
